theory Spec2Isabelle
  imports Complex_Main "HOL-Library.AList" "HOL-Library.Word"
begin

section \<open>JavaScript values used by the server\<close>

text \<open>
  Strings are lists of characters (one \<^typ>\<open>char\<close> per UTF-16 code unit of the ASCII
  range), \<open>undefined\<close>/\<open>null\<close> fields of a payload are \<open>None\<close>, numbers that the
  server only stores or compares are integers. A \<open>Map\<close> is an association list in
  insertion order: \<open>Map.set\<close> is \<^const>\<open>AList.update\<close> (an existing key keeps its place, a
  new key goes to the end), \<open>Map.delete\<close> is \<^const>\<open>AList.delete\<close>, \<open>Map.get\<close> is
  \<^const>\<open>map_of\<close>. A plain object with dynamic keys is a map from field names to values.
\<close>

datatype jsval = JUndefined | JNull | JBool bool | JNum int | JStr string

type_synonym jsobject = "string \<rightharpoonup> jsval"

definition truthy :: "jsval \<Rightarrow> bool" where
  "truthy v = (case v of JUndefined \<Rightarrow> False | JNull \<Rightarrow> False | JBool b \<Rightarrow> b
     | JNum n \<Rightarrow> n \<noteq> 0 | JStr s \<Rightarrow> s \<noteq> [])"

definition truthy_str :: "string option \<Rightarrow> bool" where
  "truthy_str v = (case v of None \<Rightarrow> False | Some s \<Rightarrow> s \<noteq> [])"

text \<open>\<open>a || b\<close> on optional strings, and \<open>{...a, ...b}\<close> where \<open>b\<close> may be \<open>null\<close>.\<close>

definition or_str :: "string option \<Rightarrow> string option \<Rightarrow> string option" where
  "or_str a b = (if truthy_str a then a else b)"

definition or_default :: "string option \<Rightarrow> string \<Rightarrow> string" where
  "or_default a d = (case a of None \<Rightarrow> d | Some s \<Rightarrow> if s = [] then d else s)"

definition spread :: "jsobject \<Rightarrow> jsobject option \<Rightarrow> jsobject" where
  "spread a b = (case b of None \<Rightarrow> a | Some n \<Rightarrow> a ++ n)"

definition charAt :: "string \<Rightarrow> int \<Rightarrow> string" where
  "charAt s i = (if 0 \<le> i \<and> i < int (length s) then [s ! nat i] else [])"

definition toUpperCase_char :: "char \<Rightarrow> char" where
  "toUpperCase_char c =
     (case map_of (zip ''abcdefghijklmnopqrstuvwxyz'' ''ABCDEFGHIJKLMNOPQRSTUVWXYZ'') c of
        Some u \<Rightarrow> u | None \<Rightarrow> c)"

definition toUpperCase :: "string \<Rightarrow> string" where
  "toUpperCase s = map toUpperCase_char s"

text \<open>\<open>s.replace(/c/g, rep)\<close> for a one-character pattern.\<close>

definition replace_all :: "char \<Rightarrow> string \<Rightarrow> string \<Rightarrow> string" where
  "replace_all c rep s = concat (map (\<lambda>x. if x = c then rep else [x]) s)"

text \<open>
  \<open>range.replace(/bytes=/, "")\<close> removes the first occurrence of a literal pattern;
  \<open>s.split("-")\<close> cuts at every separator and always returns at least one part.
\<close>

fun remove_first :: "string \<Rightarrow> string \<Rightarrow> string" where
  "remove_first pat [] = []"
| "remove_first pat (c # cs) =
     (if take (length pat) (c # cs) = pat then drop (length pat) (c # cs)
      else c # remove_first pat cs)"

fun split_on :: "char \<Rightarrow> string \<Rightarrow> string list" where
  "split_on d [] = [[]]"
| "split_on d (c # cs) =
     (if c = d then [] # split_on d cs
      else (case split_on d cs of [] \<Rightarrow> [[c]] | p # ps \<Rightarrow> (c # p) # ps))"

text \<open>
  \<open>parseInt(s, 10)\<close>: leading white space is skipped, a sign is read, then the longest
  run of decimal digits; \<open>None\<close> is \<open>NaN\<close> (no digit there). Numbers print in decimal
  in a template literal, \<open>NaN\<close> as such.
\<close>

definition is_space :: "char \<Rightarrow> bool" where
  "is_space c = (c \<in> set [CHR '' '', CHR 0x09, CHR 0x0A, CHR 0x0B, CHR 0x0C, CHR 0x0D])"

definition is_digit :: "char \<Rightarrow> bool" where
  "is_digit c = (c \<in> set ''0123456789'')"

definition digit_val :: "char \<Rightarrow> nat" where
  "digit_val c = of_char c - 48"

definition digits_val :: "string \<Rightarrow> nat" where
  "digits_val ds = foldl (\<lambda>a c. 10 * a + digit_val c) 0 ds"

definition parseInt :: "string \<Rightarrow> int option" where
  "parseInt s =
     (let t = dropWhile is_space s;
          neg = (case t of [] \<Rightarrow> False | c # _ \<Rightarrow> c = CHR ''-'');
          u = (case t of [] \<Rightarrow> [] | c # r \<Rightarrow> if c = CHR ''-'' \<or> c = CHR ''+'' then r else t);
          ds = takeWhile is_digit u
      in if ds = [] then None
         else Some (if neg then - int (digits_val ds) else int (digits_val ds)))"

definition digit_char :: "nat \<Rightarrow> char" where
  "digit_char n = ''0123456789'' ! n"

function show_nat :: "nat \<Rightarrow> string" where
  "show_nat n = (if n < 10 then [digit_char n] else show_nat (n div 10) @ [digit_char (n mod 10)])"
  by pat_completeness auto
termination
  by (relation "measure (\<lambda>n. n)") auto

definition show_num :: "int option \<Rightarrow> string" where
  "show_num v = (case v of None \<Rightarrow> ''NaN''
     | Some i \<Rightarrow> if i < 0 then CHR ''-'' # show_nat (nat (- i)) else show_nat (nat i))"

text \<open>
  Arithmetic on numbers is IEEE 754 double precision. A non-negative finite double is
  written as the rational it denotes. \<open>ilog2 q\<close> is the binary exponent of a positive
  \<open>q\<close> (\<open>2 ^ e \<le> q < 2 ^ (e + 1)\<close>); the doubles of that binade are the multiples of
  \<open>2 ^ (e - 52)\<close>, and below \<open>2 ^ (-1022)\<close> the subnormal ones are the multiples of
  \<open>2 ^ (-1074)\<close>. \<open>round_double\<close> rounds a non-negative rational to the nearest double,
  a tie going to the even significand; overflow to infinity is not represented (the
  products formed here are below 34). \<open>a * b\<close> on non-negative doubles is \<open>fmul\<close>: the
  exact product, rounded.
\<close>

function ilog2 :: "rat \<Rightarrow> int" where
  "ilog2 q = (if q \<le> 0 then 0
              else if q < 1 then ilog2 (2 * q) - 1
              else if 2 \<le> q then ilog2 (q / 2) + 1
              else 0)"
  by pat_completeness auto
termination
proof (relation "measure (\<lambda>q. if 1 \<le> q then nat \<lfloor>q\<rfloor> else nat \<lceil>1 / q\<rceil> + 1)")
  show "wf (measure (\<lambda>q::rat. if 1 \<le> q then nat \<lfloor>q\<rfloor> else nat \<lceil>1 / q\<rceil> + 1))" by simp
next
  fix q :: rat
  assume a: "\<not> q \<le> 0" "q < 1"
  have y: "1 < 1 / q" using a by simp
  then have c2: "2 \<le> \<lceil>1 / q\<rceil>" by linarith
  show "(2 * q, q) \<in> measure (\<lambda>q. if 1 \<le> q then nat \<lfloor>q\<rfloor> else nat \<lceil>1 / q\<rceil> + 1)"
  proof (cases "1 \<le> 2 * q")
    case True
    then have "\<lfloor>2 * q\<rfloor> = 1" using a by linarith
    with True a c2 show ?thesis by simp
  next
    case False
    then have "2 \<le> 1 / q" using a by (simp add: pos_le_divide_eq)
    then have "1 / (2 * q) \<le> 1 / q - 1" using a by (simp add: field_simps)
    then have "\<lceil>1 / (2 * q)\<rceil> \<le> \<lceil>1 / q - 1\<rceil>" by (rule ceiling_mono)
    then have "\<lceil>1 / (2 * q)\<rceil> < \<lceil>1 / q\<rceil>" by simp
    moreover have "0 < \<lceil>1 / q\<rceil>" using c2 by linarith
    ultimately show ?thesis using False a by simp
  qed
next
  fix q :: rat
  assume a: "\<not> q \<le> 0" "\<not> q < 1" "2 \<le> q"
  have "q / 2 \<le> q - 1" using a by simp
  then have "\<lfloor>q / 2\<rfloor> \<le> \<lfloor>q - 1\<rfloor>" by (rule floor_mono)
  then have "\<lfloor>q / 2\<rfloor> < \<lfloor>q\<rfloor>" by simp
  moreover have "0 < \<lfloor>q\<rfloor>" using a by simp
  ultimately show "(q / 2, q) \<in> measure (\<lambda>q. if 1 \<le> q then nat \<lfloor>q\<rfloor> else nat \<lceil>1 / q\<rceil> + 1)"
    using a by simp
qed

definition round_half_even :: "rat \<Rightarrow> int" where
  "round_half_even r =
     (let f = \<lfloor>r\<rfloor>; d = r - of_int f
      in if d < 1 / 2 then f else if 1 / 2 < d then f + 1 else if even f then f else f + 1)"

definition ulp_exp :: "rat \<Rightarrow> int" where
  "ulp_exp q = max (ilog2 q) (- 1022) - 52"

definition round_double :: "rat \<Rightarrow> rat" where
  "round_double q =
     (if q \<le> 0 then 0
      else of_int (round_half_even (q / 2 powi ulp_exp q)) * 2 powi ulp_exp q)"

definition is_double :: "rat \<Rightarrow> bool" where
  "is_double q = (0 \<le> q \<and> round_double q = q)"

definition fmul :: "rat \<Rightarrow> rat \<Rightarrow> rat" where
  "fmul a b = round_double (a * b)"

section \<open>SecurityManager.js\<close>

record SecurityManager =
  secretKey :: string

text \<open>
  \<open>crypto.randomBytes(n)\<close> draws from a source of bytes; \<open>toString('hex')\<close> writes two
  lower-case hexadecimal digits per byte.
\<close>

definition randomBytes :: "(nat \<Rightarrow> 8 word) \<Rightarrow> nat \<Rightarrow> 8 word list" where
  "randomBytes src n = map src [0..<n]"

definition hex_of_byte :: "8 word \<Rightarrow> string" where
  "hex_of_byte b = [''0123456789abcdef'' ! (unat b div 16), ''0123456789abcdef'' ! (unat b mod 16)]"

definition toString_hex :: "8 word list \<Rightarrow> string" where
  "toString_hex bs = concat (map hex_of_byte bs)"

definition generateSecureRoomId :: "(nat \<Rightarrow> 8 word) \<Rightarrow> string" where
  "generateSecureRoomId src = toUpperCase (toString_hex (randomBytes src 6))"

text \<open>
  \<open>hashPassword\<close>: the SHA-256 digest of the password followed by the secret, in
  hexadecimal. The digest function of the \<open>crypto\<close> library is a parameter.
\<close>

definition hashPassword :: "(string \<Rightarrow> string) \<Rightarrow> SecurityManager \<Rightarrow> string \<Rightarrow> string" where
  "hashPassword sha256_hex sm pw = sha256_hex (pw @ secretKey sm)"

definition verifyPassword ::
  "(string \<Rightarrow> string) \<Rightarrow> SecurityManager \<Rightarrow> string \<Rightarrow> string \<Rightarrow> bool" where
  "verifyPassword sha256_hex sm pw hash = (let testHash = hashPassword sha256_hex sm pw in testHash = hash)"

definition sanitizeInput :: "string \<Rightarrow> string" where
  "sanitizeInput input =
     replace_all (CHR ''/'') ''&#x2F;''
       (replace_all (CHR 0x27) ''&#x27;''
         (replace_all (CHR 0x22) ''&quot;''
           (replace_all (CHR ''>'') ''&gt;''
             (replace_all (CHR ''<'') ''&lt;'' input))))"

record join_request =
  jr_roomId :: "string option"
  jr_username :: "string option"
  jr_password :: "string option"

record validation =
  isValid :: bool
  errors :: "string list"

text \<open>The pattern \<open>/^[A-Z0-9]{6,12}$/\<close>.\<close>

definition room_id_format :: "string \<Rightarrow> bool" where
  "room_id_format s = (6 \<le> length s \<and> length s \<le> 12 \<and>
     list_all (\<lambda>c. c \<in> set ''ABCDEFGHIJKLMNOPQRSTUVWXYZ0123456789'') s)"

definition validateJoinRequest :: "join_request \<Rightarrow> validation" where
  "validateJoinRequest data =
     (let e1 = (case jr_roomId data of
                  None \<Rightarrow> [''Invalid room ID format'']
                | Some rid \<Rightarrow> if rid = [] \<or> \<not> room_id_format rid
                    then [''Invalid room ID format''] else []);
          e2 = (case jr_username data of
                  None \<Rightarrow> [''Username must be between 2 and 20 characters'']
                | Some u \<Rightarrow> if u = [] \<or> length u < 2 \<or> length u > 20
                    then [''Username must be between 2 and 20 characters''] else []);
          e3 = (case jr_password data of
                  None \<Rightarrow> []
                | Some p \<Rightarrow> if p \<noteq> [] \<and> length p > 50 then [''Password too long''] else []);
          errs = e1 @ e2 @ e3
      in \<lparr>isValid = (length errs = 0), errors = errs\<rparr>)"

section \<open>RoomManager.js\<close>

record User =
  user_id :: string
  user_name :: "string option"
  isAdmin :: bool
  joinedAt :: nat

record Room =
  room_id :: string
  room_name :: string
  password :: string
  privacy :: string
  maxUsers :: int
  admin :: "string option"
  users :: "(string \<times> User) list"
  videoState :: jsobject
  qualitySettings :: jsval
  streamingConfig :: jsval
  createdAt :: nat

record RoomManager =
  room :: "Room option"
  securityManager :: "SecurityManager option"

text \<open>
  What the host supplies besides the arguments: the byte source of \<open>crypto.randomBytes\<close>,
  the successive results of \<open>Math.random()\<close> (doubles in \<open>[0, 1)\<close>, the \<open>i\<close>-th draw of
  the loop being \<open>sys_random i\<close>), and the clock read by \<open>new Date()\<close>.
\<close>

record Sys =
  sys_bytes :: "nat \<Rightarrow> 8 word"
  sys_random :: "nat \<Rightarrow> rat"
  sys_now :: nat

record create_data =
  cd_username :: "string option"
  cd_roomName :: "string option"
  cd_password :: "string option"
  cd_privacy :: "string option"
  cd_maxUsers :: "int option"
  cd_qualitySettings :: jsval
  cd_streamingConfig :: jsval

definition chars :: string where
  "chars = ''ABCDEFGHIJKLMNPQRSTUVWXYZ123456789''"

text \<open>The loop \<open>for (let i = 0; i < 8; i++) result += chars.charAt(Math.floor(Math.random() * chars.length))\<close>.\<close>

function generateRoomId_loop :: "(nat \<Rightarrow> rat) \<Rightarrow> nat \<Rightarrow> string \<Rightarrow> string" where
  "generateRoomId_loop rnd i result =
     (if i < 8
      then generateRoomId_loop rnd (i + 1)
             (result @ charAt chars \<lfloor>fmul (rnd i) (of_nat (length chars))\<rfloor>)
      else result)"
  by pat_completeness auto
termination
  by (relation "measure (\<lambda>(rnd, i, result). 8 - i)") auto

definition generateRoomId :: "(nat \<Rightarrow> rat) \<Rightarrow> string" where
  "generateRoomId rnd = generateRoomId_loop rnd 0 []"

definition initialVideoState :: jsobject where
  "initialVideoState = [''videoUrl'' \<mapsto> JNull, ''videoType'' \<mapsto> JNull,
     ''currentTime'' \<mapsto> JNum 0, ''isPlaying'' \<mapsto> JBool False, ''title'' \<mapsto> JNull]"

text \<open>
  \<open>cd_maxUsers\<close> is the result of \<open>parseInt(data.maxUsers)\<close>, \<open>None\<close> for \<open>NaN\<close>.
  \<open>createRoom\<close> returns the room and stores it as the manager's only room.
\<close>

definition createRoom ::
  "(string \<Rightarrow> string) \<Rightarrow> Sys \<Rightarrow> create_data \<Rightarrow> RoomManager \<Rightarrow> Room \<times> RoomManager" where
  "createRoom sha256_hex sys data rm =
     (let roomId = (case securityManager rm of
                      Some sm \<Rightarrow> generateSecureRoomId (sys_bytes sys)
                    | None \<Rightarrow> generateRoomId (sys_random sys));
          hashedPassword =
            (case securityManager rm of
               Some sm \<Rightarrow> if truthy_str (cd_password data)
                          then hashPassword sha256_hex sm (or_default (cd_password data) [])
                          else or_default (cd_password data) []
             | None \<Rightarrow> or_default (cd_password data) []);
          r = \<lparr>room_id = roomId,
               room_name = or_default (cd_roomName data) ''My Room'',
               password = hashedPassword,
               privacy = or_default (cd_privacy data) ''private'',
               maxUsers = (case cd_maxUsers data of None \<Rightarrow> 10 | Some n \<Rightarrow> if n = 0 then 10 else n),
               admin = None,
               users = [],
               videoState = initialVideoState,
               qualitySettings = (if truthy (cd_qualitySettings data) then cd_qualitySettings data else JNull),
               streamingConfig = (if truthy (cd_streamingConfig data) then cd_streamingConfig data else JNull),
               createdAt = sys_now sys\<rparr>
      in (r, rm\<lparr>room := Some r\<rparr>))"

definition addUser :: "Sys \<Rightarrow> string \<Rightarrow> string option \<Rightarrow> RoomManager \<Rightarrow> User option \<times> RoomManager" where
  "addUser sys socketId name rm =
     (case room rm of
        None \<Rightarrow> (None, rm)
      | Some r \<Rightarrow>
          let user = \<lparr>user_id = socketId, user_name = name,
                      isAdmin = (length (users r) = 0), joinedAt = sys_now sys\<rparr>;
              r1 = (if isAdmin user then r\<lparr>admin := Some socketId\<rparr> else r);
              r2 = r1\<lparr>users := AList.update socketId user (users r1)\<rparr>
          in (Some user, rm\<lparr>room := Some r2\<rparr>))"

text \<open>
  \<open>removeUser\<close> returns the promoted user (\<open>{ newAdmin: ... }\<close>) or \<open>None\<close> for \<open>null\<close>.
  \<open>Array.from(users.keys())[0]\<close> is the key of the first entry, and \<open>users.get\<close> of that
  key is the first entry itself.
\<close>

definition removeUser :: "string \<Rightarrow> RoomManager \<Rightarrow> User option \<times> RoomManager" where
  "removeUser socketId rm =
     (case room rm of
        None \<Rightarrow> (None, rm)
      | Some r \<Rightarrow>
          let r1 = r\<lparr>users := AList.delete socketId (users r)\<rparr>
          in if admin r1 = Some socketId \<and> length (users r1) > 0
             then (case users r1 of
                     [] \<Rightarrow> (None, rm\<lparr>room := Some r1\<rparr>)
                   | (newAdminId, u) # rest \<Rightarrow>
                       let u' = u\<lparr>isAdmin := True\<rparr>;
                           r2 = r1\<lparr>admin := Some newAdminId, users := (newAdminId, u') # rest\<rparr>
                       in (Some u', rm\<lparr>room := Some r2\<rparr>))
             else (None, rm\<lparr>room := Some r1\<rparr>))"

definition getUsers :: "RoomManager \<Rightarrow> User list" where
  "getUsers rm = (case room rm of Some r \<Rightarrow> map snd (users r) | None \<Rightarrow> [])"

definition updateVideoState :: "jsobject option \<Rightarrow> RoomManager \<Rightarrow> RoomManager" where
  "updateVideoState newState rm =
     (case room rm of
        Some r \<Rightarrow> rm\<lparr>room := Some (r\<lparr>videoState := spread (videoState r) newState\<rparr>)\<rparr>
      | None \<Rightarrow> rm)"

section \<open>SocketHandler.js\<close>

text \<open>
  A handler takes the connection's id and the payload, and returns the room manager it
  leaves and the events it emits, in order. \<open>Emit s\<close> is \<open>socket.emit\<close> (to the
  sender \<open>s\<close> only), \<open>ToRoom\<close> is \<open>io.to(room.id).emit\<close> (every connection of the
  room), \<open>ToOthers s\<close> is \<open>socket.to(room.id).emit\<close> (the room except the sender).
\<close>

record room_created =
  rc_roomId :: string
  rc_roomName :: string
  rc_isAdmin :: bool
  rc_maxUsers :: int
  rc_serverIp :: string
  rc_serverPort :: nat
  rc_shareableUrl :: string
  rc_webUrl :: string
  rc_users :: "User list"
  rc_qualitySettings :: jsval
  rc_streamingConfig :: jsval

record room_joined =
  rj_roomId :: string
  rj_roomName :: string
  rj_isAdmin :: bool
  rj_videoState :: jsobject
  rj_users :: "User list"
  rj_qualitySettings :: jsval
  rj_streamingConfig :: jsval

record chat_message =
  cm_id :: string
  cm_user :: "string option"
  cm_message :: "string option"
  cm_timestamp :: nat
  cm_isAdmin :: bool

datatype payload =
    Error string
  | RoomCreated room_created
  | RoomJoined room_joined
  | UserJoined User "User list"
  | UserLeft "User list" "User option"
  | VideoCleared
  | VideoLoaded jsobject
  | VideoProcessed string "string option"
  | ChatMessage chat_message

datatype event =
    Emit string payload
  | ToRoom string payload
  | ToOthers string string payload

text \<open>
  \<open>handleCreateRoom\<close>; \<open>localIp\<close> is the result of \<open>getLocalIpAddress()\<close> and \<open>port\<close>
  the handler's port.
\<close>

definition handleCreateRoom ::
  "(string \<Rightarrow> string) \<Rightarrow> Sys \<Rightarrow> string \<Rightarrow> nat \<Rightarrow> string \<Rightarrow> create_data \<Rightarrow> RoomManager
     \<Rightarrow> RoomManager \<times> event list" where
  "handleCreateRoom sha256_hex sys localIp port socket data rm =
     (case createRoom sha256_hex sys data rm of (r0, rm1) \<Rightarrow>
        (case addUser sys socket (cd_username data) rm1 of
           (None, rm2) \<Rightarrow> (rm2, [Emit socket (Error ''Failed to create room'')])
         | (Some user, rm2) \<Rightarrow>
             (case room rm2 of
                None \<Rightarrow> (rm2, [Emit socket (Error ''Failed to create room'')])
              | Some r \<Rightarrow>
                  (rm2, [Emit socket (RoomCreated
                     \<lparr>rc_roomId = room_id r, rc_roomName = room_name r, rc_isAdmin = isAdmin user,
                      rc_maxUsers = maxUsers r, rc_serverIp = localIp, rc_serverPort = port,
                      rc_shareableUrl = ''syncstream://'' @ localIp @ '':'' @ show_nat port
                                          @ ''/join/'' @ room_id r,
                      rc_webUrl = ''http://'' @ localIp @ '':'' @ show_nat port
                                    @ ''/?join='' @ room_id r,
                      rc_users = getUsers rm2,
                      rc_qualitySettings = qualitySettings r,
                      rc_streamingConfig = streamingConfig r\<rparr>)]))))"

definition handleJoinRoom ::
  "Sys \<Rightarrow> string \<Rightarrow> join_request \<Rightarrow> RoomManager \<Rightarrow> RoomManager \<times> event list" where
  "handleJoinRoom sys socket data rm =
     (case room rm of
        None \<Rightarrow> (rm, [Emit socket (Error ''Room not found'')])
      | Some r0 \<Rightarrow>
          if privacy r0 = ''private'' \<and> Some (password r0) \<noteq> jr_password data
          then (rm, [Emit socket (Error ''Wrong password'')])
          else if int (length (users r0)) \<ge> maxUsers r0
          then (rm, [Emit socket (Error ''Room is full'')])
          else (case addUser sys socket (jr_username data) rm of
                  (None, rm1) \<Rightarrow> (rm1, [Emit socket (Error ''Failed to join room'')])
                | (Some user, rm1) \<Rightarrow>
                    (case room rm1 of
                       None \<Rightarrow> (rm1, [Emit socket (Error ''Failed to join room'')])
                     | Some r \<Rightarrow>
                         let us = getUsers rm1
                         in (rm1,
                             [Emit socket (RoomJoined
                                \<lparr>rj_roomId = room_id r, rj_roomName = room_name r,
                                 rj_isAdmin = isAdmin user, rj_videoState = videoState r,
                                 rj_users = us, rj_qualitySettings = qualitySettings r,
                                 rj_streamingConfig = streamingConfig r\<rparr>),
                              ToOthers socket (room_id r) (UserJoined user us)]))))"

definition handleClearVideo :: "string \<Rightarrow> RoomManager \<Rightarrow> RoomManager \<times> event list" where
  "handleClearVideo socket rm =
     (case room rm of
        None \<Rightarrow> (rm, [Emit socket (Error ''Only admin can clear videos'')])
      | Some r \<Rightarrow>
          if admin r \<noteq> Some socket
          then (rm, [Emit socket (Error ''Only admin can clear videos'')])
          else (updateVideoState None rm, [ToRoom (room_id r) VideoCleared]))"

text \<open>\<open>uuid\<close> is the result of \<open>uuidv4()\<close>; \<open>message\<close> is \<open>data.message\<close>.\<close>

definition handleChatMessage ::
  "Sys \<Rightarrow> string \<Rightarrow> string \<Rightarrow> string option \<Rightarrow> RoomManager \<Rightarrow> RoomManager \<times> event list" where
  "handleChatMessage sys uuid socket message rm =
     (case room rm of
        None \<Rightarrow> (rm, [])
      | Some r \<Rightarrow>
          (case map_of (users r) socket of
             None \<Rightarrow> (rm, [])
           | Some user \<Rightarrow>
               (rm, [ToRoom (room_id r) (ChatMessage
                  \<lparr>cm_id = uuid, cm_user = user_name user, cm_message = message,
                   cm_timestamp = sys_now sys, cm_isAdmin = isAdmin user\<rparr>)])))"

definition handleDisconnect :: "string \<Rightarrow> RoomManager \<Rightarrow> RoomManager \<times> event list" where
  "handleDisconnect socket rm =
     (case room rm of
        None \<Rightarrow> (rm, [])
      | Some r0 \<Rightarrow>
          (case removeUser socket rm of (result, rm1) \<Rightarrow>
             let us = getUsers rm1
             in if length us > 0
                then (rm1, [ToOthers socket (room_id r0) (UserLeft us result)])
                else (rm1, [])))"

subsection \<open>processWithYtDlp: the resolver exited with code 0\<close>

text \<open>
  The payload printed by the resolver, after \<open>JSON.parse\<close>. A field that is absent or
  \<open>null\<close> is \<open>None\<close>; \<open>f.vcodec !== 'none'\<close> holds of such a field.
\<close>

record format =
  vcodec :: "string option"
  acodec :: "string option"
  ext :: "string option"
  fmt_url :: "string option"

record video_info =
  vi_url :: "string option"
  vi_webpage_url :: "string option"
  vi_formats :: "format list option"
  vi_title :: "string option"
  vi_duration :: jsval
  vi_thumbnail :: jsval
  vi_uploader :: jsval
  vi_description :: jsval

record load_data =
  ld_url :: "string option"
  ld_title :: "string option"

definition has_video_audio_mp4 :: "format \<Rightarrow> bool" where
  "has_video_audio_mp4 f =
     (vcodec f \<noteq> Some ''none'' \<and> acodec f \<noteq> Some ''none'' \<and> ext f = Some ''mp4'')"

definition has_video :: "format \<Rightarrow> bool" where
  "has_video f = (vcodec f \<noteq> Some ''none'')"

definition bestFormat :: "format list \<Rightarrow> format option" where
  "bestFormat formats =
     (case find has_video_audio_mp4 formats of
        Some f \<Rightarrow> Some f
      | None \<Rightarrow> find has_video formats)"

text \<open>The value of the variable \<open>streamUrl\<close> when the video state is built.\<close>

definition streamUrl :: "video_info \<Rightarrow> string option" where
  "streamUrl videoInfo =
     (let fallback = or_str (vi_url videoInfo) (vi_webpage_url videoInfo)
      in case vi_formats videoInfo of
           None \<Rightarrow> fallback
         | Some formats \<Rightarrow>
             (case bestFormat formats of
                None \<Rightarrow> fallback
              | Some f \<Rightarrow> if truthy_str (fmt_url f) then fmt_url f else fallback))"

definition js_of_str :: "string option \<Rightarrow> jsval" where
  "js_of_str v = (case v of None \<Rightarrow> JUndefined | Some s \<Rightarrow> JStr s)"

text \<open>
  The body of the \<open>close\<close> listener for exit code 0. \<open>parsed\<close> is the result of
  \<open>JSON.parse(jsonOutput)\<close>, \<open>None\<close> when it throws; \<open>roomId\<close> is the id of the room
  the load was requested in.
\<close>

definition ytdlp_close_ok ::
  "string \<Rightarrow> string \<Rightarrow> load_data \<Rightarrow> video_info option \<Rightarrow> RoomManager \<Rightarrow> RoomManager \<times> event list" where
  "ytdlp_close_ok socket roomId data parsed rm =
     (case parsed of
        None \<Rightarrow> (rm, [Emit socket (Error ''Failed to process video information'')])
      | Some videoInfo \<Rightarrow>
          let vs = [''videoUrl'' \<mapsto> js_of_str (streamUrl videoInfo),
                    ''videoType'' \<mapsto> JStr ''stream'',
                    ''originalUrl'' \<mapsto> js_of_str (ld_url data),
                    ''currentTime'' \<mapsto> JNum 0,
                    ''isPlaying'' \<mapsto> JBool False,
                    ''title'' \<mapsto> JStr (or_default (or_str (vi_title videoInfo) (ld_title data)) ''Video''),
                    ''duration'' \<mapsto> vi_duration videoInfo,
                    ''thumbnail'' \<mapsto> vi_thumbnail videoInfo,
                    ''uploader'' \<mapsto> vi_uploader videoInfo,
                    ''description'' \<mapsto> vi_description videoInfo]
          in (updateVideoState (Some vs) rm,
              [ToRoom roomId (VideoLoaded vs),
               Emit socket (VideoProcessed ''Video loaded successfully'' (vi_title videoInfo))]))"

section \<open>StreamingServer.js: GET /stream/:roomId/video\<close>

text \<open>
  The file system maps a path to the bytes of the file there. A response is the status,
  the headers passed to \<open>writeHead\<close> and the body sent. \<open>fs.createReadStream\<close> with
  \<open>{start, end}\<close> reads the bytes from \<open>start\<close> to \<open>end\<close>, both inclusive, as far
  as the file goes, and throws when either is not a non-negative integer or when
  \<open>start > end\<close>; an exception thrown in the route is \<open>Threw\<close>.
\<close>

datatype header_val = HStr string | HNum "int option"

datatype body = Text string | Bytes "8 word list"

record response =
  status :: nat
  headers :: "(string \<times> header_val) list"
  content :: body

datatype http_result = Responded response | Threw

definition createReadStream :: "8 word list \<Rightarrow> int option \<Rightarrow> int option \<Rightarrow> 8 word list option" where
  "createReadStream file start end_pos =
     (case (start, end_pos) of
        (Some s, Some e) \<Rightarrow>
          if 0 \<le> s \<and> 0 \<le> e \<and> s \<le> e
          then Some (take (nat (e - s + 1)) (drop (nat s) file))
          else None
      | _ \<Rightarrow> None)"

definition send_status :: "nat \<Rightarrow> string \<Rightarrow> http_result" where
  "send_status code msg = Responded \<lparr>status = code, headers = [], content = Text msg\<rparr>"

definition stream_video ::
  "(string \<rightharpoonup> 8 word list) \<Rightarrow> RoomManager \<Rightarrow> string \<Rightarrow> string option \<Rightarrow> http_result" where
  "stream_video fs rm roomId range_hdr =
     (case room rm of
        None \<Rightarrow> send_status 404 ''Room not found''
      | Some r \<Rightarrow>
          if room_id r \<noteq> roomId then send_status 404 ''Room not found''
          else (case videoState r ''localPath'' of
                  Some (JStr videoPath) \<Rightarrow>
                    (case (if videoPath = [] then None else fs videoPath) of
                       None \<Rightarrow> send_status 404 ''Video not found''
                     | Some file \<Rightarrow>
                         let fileSize = int (length file)
                         in if truthy_str range_hdr
                            then (let parts = split_on (CHR ''-'') (remove_first ''bytes='' (or_default range_hdr []));
                                      start = parseInt (case parts of [] \<Rightarrow> [] | p0 # _ \<Rightarrow> p0);
                                      end_pos = (case parts of
                                                _ # p1 # _ \<Rightarrow> if p1 \<noteq> [] then parseInt p1 else Some (fileSize - 1)
                                              | _ \<Rightarrow> Some (fileSize - 1));
                                      chunksize = (case (start, end_pos) of
                                                     (Some s, Some e) \<Rightarrow> Some ((e - s) + 1)
                                                   | _ \<Rightarrow> None)
                                  in case createReadStream file start end_pos of
                                       None \<Rightarrow> Threw
                                     | Some bytes \<Rightarrow> Responded
                                         \<lparr>status = 206,
                                          headers =
                                            [(''Content-Range'', HStr (''bytes '' @ show_num start @ ''-''
                                                @ show_num end_pos @ ''/'' @ show_num (Some fileSize))),
                                             (''Accept-Ranges'', HStr ''bytes''),
                                             (''Content-Length'', HNum chunksize),
                                             (''Content-Type'', HStr ''video/mp4''),
                                             (''Cache-Control'', HStr ''no-cache'')],
                                          content = Bytes bytes\<rparr>)
                            else Responded
                                   \<lparr>status = 200,
                                    headers = [(''Content-Length'', HNum (Some fileSize)),
                                               (''Content-Type'', HStr ''video/mp4''),
                                               (''Cache-Control'', HStr ''no-cache'')],
                                    content = Bytes file\<rparr>)
                | _ \<Rightarrow> send_status 404 ''Video not found''))"

section \<open>Notions used in the properties, and concrete inputs\<close>

text \<open>
  The connections whose user record carries \<open>isAdmin = true\<close>, in insertion order, and
  the admin invariant of a room: when the room has users, exactly one of them carries
  the flag and \<open>room.admin\<close> is that user's connection id.
\<close>

definition admin_flags :: "Room \<Rightarrow> string list" where
  "admin_flags r = map fst (filter (\<lambda>p. isAdmin (snd p)) (users r))"

definition admin_invariant :: "Room \<Rightarrow> bool" where
  "admin_invariant r =
     (users r = [] \<or> (case admin r of None \<Rightarrow> False | Some a \<Rightarrow> admin_flags r = [a]))"

definition room_ok :: "Room \<Rightarrow> bool" where
  "room_ok r = (distinct (map fst (users r)) \<and> admin_invariant r)"

text \<open>
  The states of the room manager reached by creating rooms, by joins of connections
  that are not yet in the room, and by departures.
\<close>

inductive reachable_fresh :: "RoomManager \<Rightarrow> bool" where
  start: "reachable_fresh \<lparr>room = None, securityManager = sm\<rparr>"
| create: "reachable_fresh rm \<Longrightarrow> reachable_fresh (snd (createRoom sha256_hex sys data rm))"
| join: "reachable_fresh rm \<Longrightarrow> room rm = Some r \<Longrightarrow> socketId \<notin> fst ` set (users r)
           \<Longrightarrow> reachable_fresh (snd (addUser sys socketId name rm))"
| leave: "reachable_fresh rm \<Longrightarrow> reachable_fresh (snd (removeUser socketId rm))"


text \<open>The first element of a list that satisfies a predicate.\<close>

definition first_matching :: "('a \<Rightarrow> bool) \<Rightarrow> 'a list \<Rightarrow> 'a \<Rightarrow> bool" where
  "first_matching P xs x = (\<exists>pre post. xs = pre @ x # post \<and> P x \<and> list_all (\<lambda>y. \<not> P y) pre)"

text \<open>
  The header \<open>Range: bytes=s-e\<close>, or \<open>bytes=s-\<close> when the end is omitted, and the
  last byte position it designates in a file of a given size.
\<close>

definition range_header :: "nat \<Rightarrow> nat option \<Rightarrow> string" where
  "range_header s eo = ''bytes='' @ show_nat s @ ''-'' @ (case eo of None \<Rightarrow> [] | Some e \<Rightarrow> show_nat e)"

definition range_end :: "nat \<Rightarrow> nat option \<Rightarrow> nat" where
  "range_end fileSize eo = (case eo of None \<Rightarrow> fileSize - 1 | Some e \<Rightarrow> e)"

declare show_nat.simps [simp del] generateRoomId_loop.simps [simp del] ilog2.simps [simp del]

subsection \<open>Concrete inputs\<close>

definition sys0 :: Sys where
  "sys0 = \<lparr>sys_bytes = (\<lambda>i. 0), sys_random = (\<lambda>i. 0), sys_now = 0\<rparr>"

definition sys1 :: Sys where
  "sys1 = \<lparr>sys_bytes = (\<lambda>i. if even i then 0x0A else 0xF0),
           sys_random = (\<lambda>i. if even i then 1 / 2 else 8742281629601551 / 9007199254740992),
           sys_now = 0\<rparr>"

text \<open>
  A digest function for the examples: constantly the SHA-256 digest, in hexadecimal, of
  the string \<open>pws3cret\<close> (the password \<open>pw\<close> followed by the secret \<open>s3cret\<close>).
\<close>

definition sha_demo :: "string \<Rightarrow> string" where
  "sha_demo s = ''c84f9307aa2aba9e80cea85f06772f7fb2a24515458ae7205f530bd4bde57ae7''"

definition manager0 :: RoomManager where
  "manager0 = \<lparr>room = None, securityManager = Some \<lparr>secretKey = ''s3cret''\<rparr>\<rparr>"

definition private_room_data :: create_data where
  "private_room_data = \<lparr>cd_username = Some ''Ann'', cd_roomName = Some ''Movie Night'',
     cd_password = Some ''pw'', cd_privacy = Some ''private'', cd_maxUsers = Some 2,
     cd_qualitySettings = JUndefined, cd_streamingConfig = JUndefined\<rparr>"

definition public_room_data :: create_data where
  "public_room_data = \<lparr>cd_username = Some ''Ann'', cd_roomName = Some ''Movie Night'',
     cd_password = Some [], cd_privacy = Some ''public'', cd_maxUsers = Some 10,
     cd_qualitySettings = JUndefined, cd_streamingConfig = JUndefined\<rparr>"

text \<open>
  The connection \<open>host\<close> sends \<open>create-room\<close> for a public room and then \<open>join-room\<close>
  for the room it has just created.
\<close>

definition rejoin_state :: RoomManager where
  "rejoin_state =
     fst (handleJoinRoom sys0 ''host''
            \<lparr>jr_roomId = Some ''000000000000'', jr_username = Some ''Ann'', jr_password = Some []\<rparr>
            (fst (handleCreateRoom sha_demo sys0 ''192.168.0.2'' 5000 ''host'' public_room_data manager0)))"






definition demo_room :: Room where
  "demo_room =
     \<lparr>room_id = ''A1B2C3D4E5F6'', room_name = ''Movie Night'', password = [],
      privacy = ''public'', maxUsers = 10, admin = Some ''host'',
      users = [(''host'', \<lparr>user_id = ''host'', user_name = Some ''Ann'', isAdmin = True, joinedAt = 1\<rparr>),
               (''guest1'', \<lparr>user_id = ''guest1'', user_name = Some ''Bob'', isAdmin = False, joinedAt = 2\<rparr>),
               (''guest2'', \<lparr>user_id = ''guest2'', user_name = Some ''Cyd'', isAdmin = False, joinedAt = 3\<rparr>)],
      videoState = [''isPlaying'' \<mapsto> JBool True, ''currentTime'' \<mapsto> JNum 10, ''title'' \<mapsto> JStr ''X''],
      qualitySettings = JNull, streamingConfig = JNull, createdAt = 0\<rparr>"

definition demo_manager :: RoomManager where
  "demo_manager = \<lparr>room = Some demo_room, securityManager = Some \<lparr>secretKey = ''s3cret''\<rparr>\<rparr>"

definition video_room :: Room where
  "video_room = demo_room\<lparr>videoState :=
     [''videoUrl'' \<mapsto> JStr ''/stream/A1B2C3D4E5F6/video'', ''localPath'' \<mapsto> JStr ''/home/ann/movie.mp4'',
      ''videoType'' \<mapsto> JStr ''stream'', ''currentTime'' \<mapsto> JNum 0, ''isPlaying'' \<mapsto> JBool False,
      ''title'' \<mapsto> JStr ''Movie'']\<rparr>"

definition video_manager :: RoomManager where
  "video_manager = demo_manager\<lparr>room := Some video_room\<rparr>"

text \<open>A disk holding one file of 1000 bytes.\<close>

definition disk0 :: "string \<rightharpoonup> 8 word list" where
  "disk0 = [''/home/ann/movie.mp4'' \<mapsto> replicate 1000 0]"

definition audio_only :: format where
  "audio_only = \<lparr>vcodec = Some ''none'', acodec = Some ''mp4a.40.2'', ext = Some ''m4a'',
     fmt_url = Some ''https://cdn.example/audio.m4a''\<rparr>"

definition webm_video :: format where
  "webm_video = \<lparr>vcodec = Some ''vp9'', acodec = Some ''none'', ext = Some ''webm'',
     fmt_url = Some ''https://cdn.example/video.webm''\<rparr>"

definition mp4_both :: format where
  "mp4_both = \<lparr>vcodec = Some ''avc1.64001F'', acodec = Some ''mp4a.40.2'', ext = Some ''mp4'',
     fmt_url = Some ''https://cdn.example/both.mp4''\<rparr>"

definition info_with :: "format list \<Rightarrow> video_info" where
  "info_with fs = \<lparr>vi_url = None, vi_webpage_url = Some ''https://video.example/watch?v=1'',
     vi_formats = Some fs, vi_title = Some ''Clip'', vi_duration = JNum 60,
     vi_thumbnail = JUndefined, vi_uploader = JUndefined, vi_description = JUndefined\<rparr>"

definition load0 :: load_data where
  "load0 = \<lparr>ld_url = Some ''https://video.example/watch?v=1'', ld_title = None\<rparr>"

definition audio_only_loaded :: jsobject where
  "audio_only_loaded =
     [''videoUrl'' \<mapsto> JStr ''https://video.example/watch?v=1'', ''videoType'' \<mapsto> JStr ''stream'',
      ''originalUrl'' \<mapsto> JStr ''https://video.example/watch?v=1'', ''currentTime'' \<mapsto> JNum 0,
      ''isPlaying'' \<mapsto> JBool False, ''title'' \<mapsto> JStr ''Clip'', ''duration'' \<mapsto> JNum 60,
      ''thumbnail'' \<mapsto> JUndefined, ''uploader'' \<mapsto> JUndefined, ''description'' \<mapsto> JUndefined]"

section \<open>Video state\<close>

text \<open>
  C5. In a live room, \<open>updateVideoState\<close> with a partial state is a shallow merge: a
  field present in the argument takes the argument's value, a field absent from it
  keeps its prior value, and nothing else in the room changes.
\<close>

theorem updateVideoState_shallow_merge:
  assumes "room rm = Some r"
  shows "updateVideoState (Some partial) rm =
           rm\<lparr>room := Some (r\<lparr>videoState :=
              (\<lambda>k. case partial k of Some v \<Rightarrow> Some v | None \<Rightarrow> videoState r k)\<rparr>)\<rparr>"
  using assms by (simp add: updateVideoState_def spread_def map_add_def)

text \<open>
  The example of the specification: \<open>{currentTime: 42}\<close> merged into
  \<open>{isPlaying: true, currentTime: 10, title: "X"}\<close>.
\<close>

theorem updateVideoState_shallow_merge_witness:
  "room demo_manager = Some demo_room \<and>
   map_option videoState (room (updateVideoState (Some [''currentTime'' \<mapsto> JNum 42]) demo_manager))
     = Some [''isPlaying'' \<mapsto> JBool True, ''currentTime'' \<mapsto> JNum 42, ''title'' \<mapsto> JStr ''X'']"
  using updateVideoState_shallow_merge [of demo_manager demo_room "[''currentTime'' \<mapsto> JNum 42]"]
  by (simp add: demo_manager_def demo_room_def fun_eq_iff)

text \<open>
  C9. A \<open>clear-video\<close> command from the admin broadcasts \<open>video-cleared\<close> to the
  whole room and leaves the room manager, hence every field of the video state, as it
  was: the handler spreads \<open>null\<close> into the state.
\<close>

theorem handleClearVideo_keeps_videoState:
  assumes "room rm = Some r" and "admin r = Some socket"
  shows "handleClearVideo socket rm = (rm, [ToRoom (room_id r) VideoCleared])"
  using assms by (simp add: handleClearVideo_def updateVideoState_def spread_def)

theorem handleClearVideo_keeps_videoState_witness:
  "room demo_manager = Some demo_room \<and> admin demo_room = Some ''host'' \<and>
   handleClearVideo ''host'' demo_manager = (demo_manager, [ToRoom ''A1B2C3D4E5F6'' VideoCleared])"
  using handleClearVideo_keeps_videoState [of demo_manager demo_room "''host''"]
  by (simp add: demo_manager_def demo_room_def)

section \<open>Membership and the admin\<close>

lemma generateSecureRoomId_zero: "generateSecureRoomId (\<lambda>i. 0) = ''000000000000''"
  by (simp add: generateSecureRoomId_def randomBytes_def toString_hex_def hex_of_byte_def
      toUpperCase_def toUpperCase_char_def upt_rec)

lemma addUser_live:
  assumes "room rm = Some r"
  shows "addUser sys socketId name rm =
     (Some \<lparr>user_id = socketId, user_name = name, isAdmin = (users r = []), joinedAt = sys_now sys\<rparr>,
      rm\<lparr>room := Some (r\<lparr>admin := (if users r = [] then Some socketId else admin r),
         users := AList.update socketId
           \<lparr>user_id = socketId, user_name = name, isAdmin = (users r = []), joinedAt = sys_now sys\<rparr>
           (users r)\<rparr>)\<rparr>)"
  using assms by (simp add: addUser_def Let_def)

lemma update_fresh: "k \<notin> fst ` set xs \<Longrightarrow> AList.update k v xs = xs @ [(k, v)]"
  by (induction xs) auto


lemma removeUser_admin_leaves:
  assumes "room rm = Some r" and "admin r = Some socketId"
    and "AList.delete socketId (users r) = (k, u) # rest"
  shows "removeUser socketId rm =
           (Some (u\<lparr>isAdmin := True\<rparr>),
            rm\<lparr>room := Some (r\<lparr>users := (k, u\<lparr>isAdmin := True\<rparr>) # rest, admin := Some k\<rparr>)\<rparr>)"
  using assms by (simp add: removeUser_def Let_def)

subsection \<open>Insertion order is join order\<close>











subsection \<open>The admin invariant\<close>

lemma flags_delete:
  "map fst (filter (\<lambda>p. isAdmin (snd p)) (AList.delete k xs)) =
     filter (\<lambda>a. a \<noteq> k) (map fst (filter (\<lambda>p. isAdmin (snd p)) xs))"
  by (induction xs) auto

lemma room_ok_addUser:
  assumes "room rm = Some r" "room_ok r" "socketId \<notin> fst ` set (users r)"
    and "room (snd (addUser sys socketId name rm)) = Some r'"
  shows "room_ok r'"
proof (cases "users r = []")
  case True
  with assms show ?thesis
    by (auto simp: addUser_live room_ok_def admin_invariant_def admin_flags_def)
next
  case False
  with assms show ?thesis
    by (auto simp: addUser_live room_ok_def admin_invariant_def admin_flags_def update_fresh
          split: option.splits)
qed

lemma room_ok_removeUser:
  assumes "room rm = Some r" "room_ok r"
    and "room (snd (removeUser socketId rm)) = Some r'"
  shows "room_ok r'"
proof -
  let ?us = "AList.delete socketId (users r)"
  have d: "distinct (map fst ?us)" using assms(2) by (simp add: room_ok_def distinct_delete)
  show ?thesis
  proof (cases "admin r = Some socketId \<and> ?us \<noteq> []")
    case True
    then obtain k u rest where us: "?us = (k, u) # rest" by (cases ?us) auto
    from True have ne: "users r \<noteq> []" by auto
    with assms(2) True have fl: "admin_flags r = [socketId]"
      by (auto simp: room_ok_def admin_invariant_def)
    have "map fst (filter (\<lambda>p. isAdmin (snd p)) ?us) = []"
      using fl by (simp add: flags_delete admin_flags_def)
    with us have nf: "\<not> isAdmin u" "filter (\<lambda>p. isAdmin (snd p)) rest = []"
      by (auto split: if_splits)
    have r': "r' = r\<lparr>users := (k, u\<lparr>isAdmin := True\<rparr>) # rest, admin := Some k\<rparr>"
      using removeUser_admin_leaves[OF assms(1) _ us] True assms(3) by auto
    show ?thesis using d us nf unfolding r'
      by (auto simp: room_ok_def admin_invariant_def admin_flags_def)
  next
    case False
    then have r': "r' = r\<lparr>users := ?us\<rparr>"
      using assms(1,3) by (auto simp: removeUser_def Let_def split: list.splits)
    show ?thesis
    proof (cases "?us = []")
      case True
      then show ?thesis unfolding r' by (simp add: room_ok_def admin_invariant_def)
    next
      case ne: False
      then have "users r \<noteq> []" by auto
      with assms(2) obtain a where a: "admin r = Some a" "admin_flags r = [a]"
        by (auto simp: room_ok_def admin_invariant_def split: option.splits)
      with False ne have "a \<noteq> socketId" by auto
      then have "map fst (filter (\<lambda>p. isAdmin (snd p)) ?us) = [a]"
        using a by (simp add: flags_delete admin_flags_def)
      then show ?thesis using d a unfolding r'
        by (simp add: room_ok_def admin_invariant_def admin_flags_def)
    qed
  qed
qed

text \<open>
  As long as every join comes from a connection that is not yet in the room, the admin
  invariant holds in every state: a non-empty room has exactly one flagged user, and
  \<open>room.admin\<close> is that user.
\<close>

lemma reachable_fresh_admin_invariant:
  "reachable_fresh rm \<Longrightarrow> room rm = Some r \<Longrightarrow> room_ok r"
proof (induction arbitrary: r rule: reachable_fresh.induct)
  case (start sm)
  then show ?case by simp
next
  case (create rm sha256_hex sys data)
  then show ?case
    by (auto simp: createRoom_def Let_def room_ok_def admin_invariant_def)
next
  case (join rm r0 socketId sys name)
  then show ?case using room_ok_addUser by blast
next
  case (leave rm socketId)
  show ?case
  proof (cases "room rm")
    case None
    with leave show ?thesis by (simp add: removeUser_def)
  next
    case (Some r0)
    with leave show ?thesis using room_ok_removeUser by blast
  qed
qed

text \<open>
  C3. The invariant "a non-empty room has exactly one user with \<open>isAdmin = true\<close>, and
  \<open>room.admin\<close> is that user" does not hold in every reachable state: \<open>handleJoinRoom\<close>
  accepts a \<open>join-room\<close> from a connection that is already in the room, and
  \<open>addUser\<close> then overwrites that connection's record with \<open>isAdmin = false\<close>. After
  \<open>create-room\<close> and \<open>join-room\<close> from the same connection the room has one user,
  \<open>room.admin\<close> is that user, and nobody carries the flag.
\<close>

theorem admin_flag_lost_on_rejoin:
  "map_option (\<lambda>r. (map fst (users r), admin r, admin_flags r, admin_invariant r)) (room rejoin_state)
     = Some ([''host''], Some ''host'', [], False)"
  by (simp add: rejoin_state_def handleJoinRoom_def handleCreateRoom_def createRoom_def addUser_def
      manager0_def public_room_data_def sys0_def generateSecureRoomId_zero Let_def or_default_def
      truthy_str_def truthy_def admin_flags_def admin_invariant_def)

subsection \<open>Names\<close>

text \<open>
  C8, as the claim states it, fails: a one-character name is accepted by \<open>addUser\<close>,
  and the user is stored in the room.
\<close>

theorem addUser_short_name_counterexample:
  "addUser sys0 ''guest3'' (Some ''a'') demo_manager
     = (Some \<lparr>user_id = ''guest3'', user_name = Some ''a'', isAdmin = False, joinedAt = 0\<rparr>,
        demo_manager\<lparr>room := Some (demo_room\<lparr>users := users demo_room @
          [(''guest3'', \<lparr>user_id = ''guest3'', user_name = Some ''a'', isAdmin = False, joinedAt = 0\<rparr>)]\<rparr>)\<rparr>)
   \<and> length ''a'' < (2::nat)"
  by (simp add: addUser_def demo_manager_def demo_room_def sys0_def Let_def)

text \<open>
  C8, amended. \<open>addUser\<close> checks no length: in a live room it returns the new user and
  stores it under the connection id whatever the name is. The 2 to 20 character
  constraint is what \<open>validateJoinRequest\<close> reports: a username shorter than 2 or longer
  than 20 characters makes the request invalid.
\<close>

theorem addUser_no_name_check:
  assumes "room rm = Some r"
  shows "(\<exists>u rm' r'. addUser sys socketId (Some name) rm = (Some u, rm') \<and> room rm' = Some r'
            \<and> user_name u = Some name \<and> map_of (users r') socketId = Some u)
         \<and> (length name < 2 \<or> length name > 20 \<longrightarrow>
              \<not> isValid (validateJoinRequest
                   \<lparr>jr_roomId = rid, jr_username = Some name, jr_password = pw\<rparr>))"
  using assms by (auto simp: addUser_live update_conv' validateJoinRequest_def Let_def)

theorem addUser_no_name_check_witness:
  "room demo_manager = Some demo_room \<and>
   map_option (\<lambda>r. map_option user_name (map_of (users r) ''guest3''))
      (room (snd (addUser sys0 ''guest3'' (Some ''a'') demo_manager))) = Some (Some (Some ''a'')) \<and>
   \<not> isValid (validateJoinRequest
        \<lparr>jr_roomId = Some ''A1B2C3D4E5F6'', jr_username = Some ''a'', jr_password = None\<rparr>)"
  using addUser_no_name_check [of demo_manager demo_room sys0 "''guest3''" "''a''"
      "Some ''A1B2C3D4E5F6''" None]
  by (auto simp: demo_manager_def)

section \<open>Joining a private room\<close>

text \<open>
  A join whose password differs from the stored one is answered with
  \<open>Wrong password\<close> and changes nothing.
\<close>

lemma wrong_password_no_mutation:
  assumes "room rm = Some r" and "privacy r = ''private''" and "Some (password r) \<noteq> jr_password data"
  shows "handleJoinRoom sys socket data rm = (rm, [Emit socket (Error ''Wrong password'')])"
  using assms by (simp add: handleJoinRoom_def)

text \<open>
  C1. With a security manager, \<open>createRoom\<close> stores the digest of the password, and
  \<open>handleJoinRoom\<close> compares what it stored with the password as supplied, without
  hashing it (\<open>verifyPassword\<close> is not called). So a join that supplies the very
  password given at creation is rejected with \<open>Wrong password\<close>, whenever the digest
  differs from the password itself.
\<close>

theorem join_with_creation_password_rejected:
  assumes "securityManager rm = Some sm"
    and "cd_password data = Some pw" and "pw \<noteq> []" and "cd_privacy data = Some ''private''"
    and "sha256_hex (pw @ secretKey sm) \<noteq> pw"
  shows "handleJoinRoom sys' socket \<lparr>jr_roomId = rid, jr_username = name, jr_password = Some pw\<rparr>
           (snd (createRoom sha256_hex sys data rm))
         = (snd (createRoom sha256_hex sys data rm), [Emit socket (Error ''Wrong password'')])"
  using assms
  by (simp add: handleJoinRoom_def createRoom_def Let_def truthy_str_def or_default_def
      hashPassword_def)

theorem join_with_creation_password_rejected_witness:
  "securityManager manager0 = Some \<lparr>secretKey = ''s3cret''\<rparr> \<and>
   cd_password private_room_data = Some ''pw'' \<and> cd_privacy private_room_data = Some ''private'' \<and>
   sha_demo (''pw'' @ ''s3cret'') \<noteq> ''pw'' \<and>
   snd (handleJoinRoom sys0 ''guest1''
          \<lparr>jr_roomId = Some ''000000000000'', jr_username = Some ''Bob'', jr_password = Some ''pw''\<rparr>
          (snd (createRoom sha_demo sys0 private_room_data manager0)))
     = [Emit ''guest1'' (Error ''Wrong password'')]"
  using join_with_creation_password_rejected [of manager0 "\<lparr>secretKey = ''s3cret''\<rparr>"
      private_room_data "''pw''" sha_demo sys0 "''guest1''" "Some ''000000000000''" "Some ''Bob''" sys0]
  by (simp add: manager0_def private_room_data_def sha_demo_def)

section \<open>Chat messages\<close>

lemma set_replace_all:
  "set (replace_all c rep s) = (set s - {c}) \<union> (if c \<in> set s then set rep else {})"
  by (induction s) (auto simp: replace_all_def)

lemma sanitizeInput_escapes:
  "set (sanitizeInput s) \<inter> {CHR ''<'', CHR ''>'', CHR 0x22, CHR 0x27, CHR ''/''} = {}"
  by (auto simp: sanitizeInput_def set_replace_all split: if_splits)

text \<open>
  C7, as the claim states it, fails: the message \<open><b>hi</b>\<close> of a member is broadcast
  with its angle brackets and its slash, not as \<open>sanitizeInput\<close> would write it.
\<close>

theorem chat_message_raw_counterexample:
  "handleChatMessage sys0 ''uuid-1'' ''guest1'' (Some ''<b>hi</b>'') demo_manager
     = (demo_manager, [ToRoom ''A1B2C3D4E5F6'' (ChatMessage
          \<lparr>cm_id = ''uuid-1'', cm_user = Some ''Bob'', cm_message = Some ''<b>hi</b>'',
           cm_timestamp = 0, cm_isAdmin = False\<rparr>)])
   \<and> sanitizeInput ''<b>hi</b>'' = ''&lt;b&gt;hi&lt;&#x2F;b&gt;''"
  by (simp add: handleChatMessage_def demo_manager_def demo_room_def sys0_def sanitizeInput_def
      replace_all_def)

text \<open>
  C7, amended. A \<open>chat-message\<close> command from a room member is broadcast to the whole
  room with the message text and the sender's name exactly as they were supplied; the
  room manager is unchanged. Escaping is what \<open>sanitizeInput\<close> does when it is applied:
  its result contains none of the characters \<open><\<close>, \<open>>\<close>, double quote, single quote
  and \<open>/\<close>.
\<close>

theorem chat_message_broadcast_verbatim:
  assumes "room rm = Some r" and "map_of (users r) socket = Some u"
  shows "handleChatMessage sys uuid socket message rm
           = (rm, [ToRoom (room_id r) (ChatMessage
                \<lparr>cm_id = uuid, cm_user = user_name u, cm_message = message,
                 cm_timestamp = sys_now sys, cm_isAdmin = isAdmin u\<rparr>)])
         \<and> set (sanitizeInput s) \<inter> {CHR ''<'', CHR ''>'', CHR 0x22, CHR 0x27, CHR ''/''} = {}"
  using assms sanitizeInput_escapes[of s] by (simp add: handleChatMessage_def)

theorem chat_message_broadcast_verbatim_witness:
  "room demo_manager = Some demo_room \<and> map_of (users demo_room) ''host'' \<noteq> None \<and>
   snd (handleChatMessage sys0 ''uuid-2'' ''host'' (Some ''a < b'') demo_manager)
     = [ToRoom ''A1B2C3D4E5F6'' (ChatMessage
          \<lparr>cm_id = ''uuid-2'', cm_user = Some ''Ann'', cm_message = Some ''a < b'',
           cm_timestamp = 0, cm_isAdmin = True\<rparr>)]"
  using chat_message_broadcast_verbatim [of demo_manager demo_room "''host''"
      "\<lparr>user_id = ''host'', user_name = Some ''Ann'', isAdmin = True, joinedAt = 1\<rparr>"
      sys0 "''uuid-2''" "Some ''a < b''" "[]"]
  by (simp add: demo_manager_def demo_room_def sys0_def)

section \<open>Room ids\<close>

lemma hex_digit_upper:
  assumes "n < 16"
  shows "toUpperCase_char (''0123456789abcdef'' ! n) \<in> set ''0123456789ABCDEF''"
proof -
  have "set (map toUpperCase_char ''0123456789abcdef'') \<subseteq> set ''0123456789ABCDEF''"
    by (simp add: toUpperCase_char_def)
  moreover have "n < length (map toUpperCase_char ''0123456789abcdef'')" using assms by simp
  then have "map toUpperCase_char ''0123456789abcdef'' ! n \<in> set (map toUpperCase_char ''0123456789abcdef'')"
    by (rule nth_mem)
  moreover have "map toUpperCase_char ''0123456789abcdef'' ! n = toUpperCase_char (''0123456789abcdef'' ! n)"
    using assms by (intro nth_map) simp
  ultimately show ?thesis by (auto simp del: set_simps list.map)
qed

lemma hex_of_byte_upper:
  "set (toUpperCase (hex_of_byte b)) \<subseteq> set ''0123456789ABCDEF''"
proof -
  have "unat b < 2 ^ LENGTH(8)" by (rule unsigned_less)
  then have "unat b < 256" by simp
  then have "unat b div 16 < 16" "unat b mod 16 < 16" by auto
  then show ?thesis
    using hex_digit_upper[of "unat b div 16"] hex_digit_upper[of "unat b mod 16"]
    by (simp add: toUpperCase_def hex_of_byte_def)
qed

lemma toString_hex_length: "length (toString_hex bs) = 2 * length bs"
  by (induction bs) (simp_all add: toString_hex_def hex_of_byte_def)

lemma toString_hex_upper: "set (toUpperCase (toString_hex bs)) \<subseteq> set ''0123456789ABCDEF''"
proof (induction bs)
  case Nil
  show ?case by (simp add: toString_hex_def toUpperCase_def)
next
  case (Cons b bs)
  have "toUpperCase (toString_hex (b # bs)) = toUpperCase (hex_of_byte b) @ toUpperCase (toString_hex bs)"
    by (simp add: toString_hex_def toUpperCase_def)
  with Cons hex_of_byte_upper[of b] show ?case by (simp del: set_simps)
qed

lemma generateSecureRoomId_format:
  "length (generateSecureRoomId src) = 12 \<and> set (generateSecureRoomId src) \<subseteq> set ''0123456789ABCDEF''"
  using toString_hex_upper[of "randomBytes src 6"]
  by (simp add: generateSecureRoomId_def toString_hex_length randomBytes_def toUpperCase_def
      del: set_simps)

subsection \<open>Double arithmetic in the fallback generator\<close>

lemma ilog2_bounds:
  "0 < q \<Longrightarrow> 2 powi ilog2 q \<le> q \<and> q < 2 powi (ilog2 q + 1)"
proof (induction q rule: ilog2.induct)
  case (1 q)
  show ?case
  proof (cases "q < 1")
    case True
    have e: "ilog2 q = ilog2 (2 * q) - 1" using True "1.prems" by (subst ilog2.simps) simp
    have ih: "2 powi ilog2 (2 * q) \<le> 2 * q \<and> 2 * q < 2 powi (ilog2 (2 * q) + 1)"
      using "1.IH"(1) True "1.prems" by simp
    have a: "(2::rat) powi (ilog2 (2 * q) - 1) = 2 powi ilog2 (2 * q) / 2"
      by (simp add: power_int_diff)
    have b: "(2::rat) powi (ilog2 (2 * q) + 1) = 2 powi ilog2 (2 * q) * 2"
      by (simp add: power_int_add)
    show ?thesis unfolding e using ih a b by simp
  next
    case False
    note f1 = this
    show ?thesis
    proof (cases "2 \<le> q")
      case True
      have e: "ilog2 q = ilog2 (q / 2) + 1" using True f1 "1.prems" by (subst ilog2.simps) simp
      have ih: "2 powi ilog2 (q / 2) \<le> q / 2 \<and> q / 2 < 2 powi (ilog2 (q / 2) + 1)"
        using "1.IH"(2) True f1 "1.prems" by simp
      have b: "(2::rat) powi (ilog2 (q / 2) + 1) = 2 powi ilog2 (q / 2) * 2"
        by (simp add: power_int_add)
      have c: "(2::rat) powi (ilog2 (q / 2) + 1 + 1) = 2 powi ilog2 (q / 2) * 2 * 2"
        by (simp add: power_int_add)
      show ?thesis unfolding e using ih b c by simp
    next
      case False
      have e: "ilog2 q = 0" using False f1 "1.prems" by (subst ilog2.simps) simp
      show ?thesis unfolding e using False f1 by simp
    qed
  qed
qed

lemma ilog2_less:
  assumes "0 < q" and "q < 2 powi n"
  shows "ilog2 q < n"
proof (rule ccontr)
  assume "\<not> ilog2 q < n"
  then have "n \<le> ilog2 q" by simp
  then have "(2::rat) powi n \<le> 2 powi ilog2 q" by (rule power_int_increasing) simp
  with ilog2_bounds[OF assms(1)] assms(2) show False by simp
qed

lemma ilog2_ge:
  assumes "0 < q" and "2 powi n \<le> q"
  shows "n \<le> ilog2 q"
proof (rule ccontr)
  assume "\<not> n \<le> ilog2 q"
  then have "ilog2 q + 1 \<le> n" by simp
  then have "(2::rat) powi (ilog2 q + 1) \<le> 2 powi n" by (rule power_int_increasing) simp
  with ilog2_bounds[OF assms(1)] assms(2) show False by simp
qed

lemma round_half_even_le:
  assumes "r \<le> of_int n"
  shows "round_half_even r \<le> n"
proof -
  have f: "\<lfloor>r\<rfloor> \<le> n" using assms by (simp add: floor_le_iff)
  show ?thesis
  proof (cases "\<lfloor>r\<rfloor> = n")
    case True
    then have "r - of_int \<lfloor>r\<rfloor> \<le> 0" using assms by simp
    then show ?thesis using True by (simp add: round_half_even_def Let_def)
  next
    case False
    with f have "\<lfloor>r\<rfloor> + 1 \<le> n" by simp
    then show ?thesis by (auto simp: round_half_even_def Let_def)
  qed
qed

lemma round_half_even_below_half:
  assumes "r < of_int n - 1 / 2"
  shows "round_half_even r \<le> n - 1"
proof -
  have "r < of_int n" using assms by simp
  then have f: "\<lfloor>r\<rfloor> \<le> n - 1" by (simp add: floor_less_iff)
  show ?thesis
  proof (cases "\<lfloor>r\<rfloor> = n - 1")
    case True
    then have "r - of_int \<lfloor>r\<rfloor> < 1 / 2" using assms by simp
    then show ?thesis using True by (simp add: round_half_even_def Let_def)
  next
    case False
    with f have "\<lfloor>r\<rfloor> + 1 \<le> n - 1" by simp
    then show ?thesis by (auto simp: round_half_even_def Let_def)
  qed
qed

lemma round_half_even_nonneg: "0 \<le> r \<Longrightarrow> 0 \<le> round_half_even r"
  by (auto simp: round_half_even_def Let_def)

lemma round_double_nonneg: "0 \<le> round_double q"
  by (simp add: round_double_def round_half_even_nonneg)

lemma round_double_le_power:
  assumes "0 < q" and "q \<le> 2 powi n" and "ulp_exp q \<le> n"
  shows "round_double q \<le> 2 powi n"
proof -
  let ?p = "ulp_exp q"
  have pos: "(0::rat) < 2 powi ?p" by simp
  have d: "0 \<le> n - ?p" using assms(3) by simp
  have "q / 2 powi ?p \<le> 2 powi n / 2 powi ?p"
    using assms(2) pos by (intro divide_right_mono) simp_all
  also have "\<dots> = 2 powi (n - ?p)" by (simp add: power_int_diff)
  also have "\<dots> = of_int (2 ^ nat (n - ?p))"
    using d by (simp add: power_int_def)
  finally have "round_half_even (q / 2 powi ?p) \<le> 2 ^ nat (n - ?p)"
    by (rule round_half_even_le)
  then have "(of_int (round_half_even (q / 2 powi ?p)) :: rat) \<le> of_int (2 ^ nat (n - ?p))"
    by (simp only: of_int_le_iff)
  then have "of_int (round_half_even (q / 2 powi ?p)) * 2 powi ?p
               \<le> (of_int (2 ^ nat (n - ?p)) :: rat) * 2 powi ?p"
    using pos by (simp only: mult_le_cancel_right_pos)
  also have "(of_int (2 ^ nat (n - ?p)) :: rat) = 2 powi (n - ?p)"
    using d by (simp add: power_int_def)
  also have "2 powi (n - ?p) * 2 powi ?p = (2::rat) powi n"
    by (simp add: power_int_diff)
  finally show ?thesis using assms(1) by (simp add: round_double_def)
qed

text \<open>A double below 1 is at most the largest double below 1.\<close>

lemma double_below_one:
  assumes "is_double x" and "x < 1"
  shows "x \<le> 1 - 1 / 2 ^ 53"
proof (cases "x = 0")
  case True
  then show ?thesis by simp
next
  case False
  with assms have pos: "0 < x" and fixed: "round_double x = x" by (auto simp: is_double_def)
  have "x < 2 powi 0" using assms(2) by simp
  then have e: "ilog2 x < 0" using pos by (intro ilog2_less)
  show ?thesis
  proof (cases "ilog2 x = - 1")
    case True
    then have p: "ulp_exp x = - 53" by (simp add: ulp_exp_def)
    have pw: "(2::rat) powi (- 53) = 1 / 2 ^ 53" by (simp only: power_int_minus_divide power_int_numeral)
    let ?n = "round_half_even (x / 2 powi (- 53))"
    have x: "x = of_int ?n / 2 ^ 53" using fixed pos by (simp add: round_double_def p pw)
    with assms(2) have "(of_int ?n :: rat) < 2 ^ 53" by (simp add: divide_less_eq)
    then have "(of_int ?n :: rat) < of_int (2 ^ 53)" by simp
    then have "?n < 2 ^ 53" by (simp only: of_int_less_iff)
    then have "?n \<le> 2 ^ 53 - 1" by simp
    then have "(of_int ?n :: rat) \<le> of_int (2 ^ 53 - 1)" by (simp only: of_int_le_iff)
    then have "(of_int ?n :: rat) / 2 ^ 53 \<le> of_int (2 ^ 53 - 1) / 2 ^ 53"
      by (simp add: divide_le_cancel)
    also have "\<dots> = 1 - 1 / 2 ^ 53" by (simp add: diff_divide_distrib)
    finally show ?thesis using x by simp
  next
    case False
    with e have "ilog2 x + 1 \<le> - 1" by simp
    then have le: "(2::rat) powi (ilog2 x + 1) \<le> 2 powi (- 1)" by (rule power_int_increasing) simp
    have half: "(2::rat) powi (- 1) = 1 / 2" by (simp only: power_int_minus1_right inverse_eq_divide)
    have "x < 2 powi (ilog2 x + 1)" using ilog2_bounds[OF pos] by (rule conjunct2)
    also note le
    also note half
    finally have "x < 1 / 2" .
    then show ?thesis by simp
  qed
qed

text \<open>
  The product of a double below 1 and 34, rounded to a double, is below 34: its floor is
  an index into the 34 characters.
\<close>

lemma floor_fmul_34:
  assumes "is_double x" and "x < 1"
  shows "0 \<le> \<lfloor>fmul x 34\<rfloor> \<and> \<lfloor>fmul x 34\<rfloor> < 34"
proof -
  have x0: "0 \<le> x" using assms(1) by (simp add: is_double_def)
  have xb: "x \<le> 1 - 1 / 2 ^ 53" using assms by (rule double_below_one)
  have nn: "0 \<le> \<lfloor>fmul x 34\<rfloor>" by (simp add: fmul_def round_double_nonneg)
  have "round_double (x * 34) < 34"
  proof (cases "x = 0")
    case True
    then show ?thesis by (simp add: round_double_def)
  next
    case False
    with x0 have q: "0 < x * 34" by simp
    show ?thesis
    proof (cases "x * 34 < 32")
      case True
      then have lt: "x * 34 < 2 powi 5" by simp
      then have "ilog2 (x * 34) < 5" using q by (intro ilog2_less)
      then have "ulp_exp (x * 34) \<le> 5" by (simp add: ulp_exp_def)
      with q lt have "round_double (x * 34) \<le> 2 powi 5" by (intro round_double_le_power) simp_all
      then show ?thesis by simp
    next
      case False
      then have "2 powi 5 \<le> x * 34" by simp
      then have ge: "5 \<le> ilog2 (x * 34)" using q by (intro ilog2_ge)
      have "x * 34 < 2 powi 6" using xb by simp
      then have "ilog2 (x * 34) < 6" using q by (intro ilog2_less)
      with ge have p: "ulp_exp (x * 34) = - 47" by (simp add: ulp_exp_def)
      have pw: "(2::rat) powi (- 47) = 1 / 2 ^ 47" by (simp only: power_int_minus_divide power_int_numeral)
      let ?n = "round_half_even (x * 34 / 2 powi (- 47))"
      have "x * 34 / 2 powi (- 47) = x * 34 * 2 ^ 47" by (simp add: pw)
      also have "\<dots> \<le> (1 - 1 / 2 ^ 53) * 34 * 2 ^ 47" using xb by simp
      also have "\<dots> < of_int (34 * 2 ^ 47) - 1 / 2" by simp
      finally have "?n \<le> 34 * 2 ^ 47 - 1" by (rule round_half_even_below_half)
      then have "(of_int ?n :: rat) \<le> of_int (34 * 2 ^ 47 - 1)" by (simp only: of_int_le_iff)
      then have "(of_int ?n :: rat) / 2 ^ 47 \<le> of_int (34 * 2 ^ 47 - 1) / 2 ^ 47"
        by (simp add: divide_le_cancel)
      also have "\<dots> < 34" by simp
      finally show ?thesis using q by (simp add: round_double_def p pw)
    qed
  qed
  then have "\<lfloor>fmul x 34\<rfloor> < 34" by (simp add: fmul_def floor_less_iff)
  with nn show ?thesis by simp
qed

lemma charAt_chars:
  assumes "is_double x" and "x < 1"
  shows "length (charAt chars \<lfloor>fmul x (of_nat (length chars))\<rfloor>) = 1
         \<and> set (charAt chars \<lfloor>fmul x (of_nat (length chars))\<rfloor>) \<subseteq> set chars"
proof -
  have len: "length chars = 34" by (simp add: chars_def)
  have fl: "0 \<le> \<lfloor>fmul x 34\<rfloor>" "\<lfloor>fmul x 34\<rfloor> < 34"
    using floor_fmul_34[OF assms] by simp_all
  have k: "nat \<lfloor>fmul x 34\<rfloor> < length chars" using fl unfolding len by linarith
  have "chars ! nat \<lfloor>fmul x 34\<rfloor> \<in> set chars" using k by (rule nth_mem)
  with fl show ?thesis
    by (simp add: charAt_def len)
qed

lemma generateRoomId_loop_format:
  assumes "\<forall>i. is_double (rnd i) \<and> rnd i < 1" and "i \<le> 8"
  shows "length (generateRoomId_loop rnd i result) = length result + (8 - i)
         \<and> set (generateRoomId_loop rnd i result) \<subseteq> set result \<union> set chars"
  using assms
proof (induction rnd i result rule: generateRoomId_loop.induct)
  case (1 rnd i result)
  show ?case
  proof (cases "i < 8")
    case True
    have c: "length (charAt chars \<lfloor>fmul (rnd i) (of_nat (length chars))\<rfloor>) = 1"
        "set (charAt chars \<lfloor>fmul (rnd i) (of_nat (length chars))\<rfloor>) \<subseteq> set chars"
      using charAt_chars[of "rnd i"] "1.prems" by auto
    from True have "i + 1 \<le> 8" by simp
    from "1.IH"[OF True "1.prems"(1) this] c True show ?thesis
      by (subst (1 2) generateRoomId_loop.simps) auto
  next
    case False
    with "1.prems" show ?thesis
      by (subst (1 2) generateRoomId_loop.simps) auto
  qed
qed

lemma generateRoomId_format:
  assumes "\<forall>i. is_double (rnd i) \<and> rnd i < 1"
  shows "length (generateRoomId rnd) = 8 \<and> set (generateRoomId rnd) \<subseteq> set chars"
  using generateRoomId_loop_format[OF assms, of 0 "[]"] by (simp add: generateRoomId_def)

text \<open>
  The two draws of the example source are doubles. The second one times 34 is
  \<open>33 - 2 ^ (-52)\<close> exactly, which is not a double and rounds to 33: the character
  drawn is the last of the alphabet.
\<close>

lemma sys1_draws:
  "is_double (1 / 2)" "is_double (8742281629601551 / 9007199254740992)"
  "\<lfloor>fmul (1 / 2) 34\<rfloor> = 17" "\<lfloor>fmul (8742281629601551 / 9007199254740992) 34\<rfloor> = 33"
  by code_simp+

text \<open>
  C2, as the claim states it, fails: with a security manager, as the server is wired,
  \<open>createRoom\<close> takes the id from \<open>generateSecureRoomId\<close>; the id below has 12
  characters, and its \<open>0\<close> is not in the restricted alphabet.
\<close>

theorem createRoom_secure_id_counterexample:
  "room_id (fst (createRoom sha_demo sys1 private_room_data manager0)) = ''0AF00AF00AF0'' \<and>
   length ''0AF00AF00AF0'' \<noteq> (8::nat) \<and> CHR ''0'' \<notin> set chars"
  by (simp add: createRoom_def manager0_def sys1_def Let_def generateSecureRoomId_def randomBytes_def
      toString_hex_def hex_of_byte_def toUpperCase_def toUpperCase_char_def upt_rec chars_def)

text \<open>
  C2, amended. The id of the room that \<open>createRoom\<close> returns is, when the room manager
  has a security manager, exactly 12 characters long with every character an upper-case
  hexadecimal digit; without a security manager it is exactly 8 characters long with
  every character in the restricted alphabet \<open>ABCDEFGHIJKLMNPQRSTUVWXYZ123456789\<close>
  (the results of \<open>Math.random()\<close> being doubles in \<open>[0, 1)\<close>, and the index being
  computed in double arithmetic).
\<close>

theorem createRoom_id_format:
  assumes "\<forall>i. is_double (sys_random sys i) \<and> sys_random sys i < 1"
  shows "case securityManager rm of
           Some sm \<Rightarrow> length (room_id (fst (createRoom sha256_hex sys data rm))) = 12
                      \<and> set (room_id (fst (createRoom sha256_hex sys data rm))) \<subseteq> set ''0123456789ABCDEF''
         | None \<Rightarrow> length (room_id (fst (createRoom sha256_hex sys data rm))) = 8
                   \<and> set (room_id (fst (createRoom sha256_hex sys data rm))) \<subseteq> set chars"
proof (cases "securityManager rm")
  case None
  then show ?thesis using generateRoomId_format[OF assms]
    by (simp add: createRoom_def Let_def)
next
  case (Some sm)
  then show ?thesis using generateSecureRoomId_format[of "sys_bytes sys"]
    by (simp add: createRoom_def Let_def del: set_simps)
qed

theorem createRoom_id_format_witness:
  "(\<forall>i. is_double (sys_random sys1 i) \<and> sys_random sys1 i < 1) \<and>
   length (room_id (fst (createRoom sha_demo sys1 private_room_data manager0))) = 12 \<and>
   room_id (fst (createRoom sha_demo sys1 private_room_data \<lparr>room = None, securityManager = None\<rparr>))
     = ''S9S9S9S9''"
proof -
  have h: "\<forall>i. is_double (sys_random sys1 i) \<and> sys_random sys1 i < 1"
    by (simp add: sys1_def sys1_draws)
  have "generateRoomId (sys_random sys1) = ''S9S9S9S9''"
    by (simp add: generateRoomId_def generateRoomId_loop.simps sys1_def chars_def charAt_def
        sys1_draws)
  then have "room_id (fst (createRoom sha_demo sys1 private_room_data \<lparr>room = None, securityManager = None\<rparr>))
     = ''S9S9S9S9''" by (simp add: createRoom_def Let_def)
  with h createRoom_id_format [OF h, where rm = manager0 and ?sha256_hex = sha_demo
      and data = private_room_data] show ?thesis
    by (simp add: manager0_def)
qed

section \<open>Choosing the stream format\<close>

lemma find_first_matching:
  "find P xs = Some x \<Longrightarrow> first_matching P xs x"
  unfolding first_matching_def find_Some_iff list_all_iff
  apply (elim exE conjE)
  subgoal for i
    apply (rule exI[of _ "take i xs"], rule exI[of _ "drop (Suc i) xs"])
    apply (auto simp: id_take_nth_drop in_set_conv_nth)
    done
  done

lemma find_None_all: "find P xs = None \<Longrightarrow> list_all (\<lambda>y. \<not> P y) xs"
  by (simp add: find_None_iff list_all_iff)

text \<open>
  C6, as the claim states it, fails: when the only format has no video codec, the load
  does not fail. The video state is built with the payload's page address as its stream
  URL and \<open>video-loaded\<close> is broadcast.
\<close>

theorem no_video_format_still_loads_counterexample:
  "find has_video [audio_only] = None \<and>
   snd (ytdlp_close_ok ''host'' ''A1B2C3D4E5F6'' load0 (Some (info_with [audio_only])) demo_manager)
     = [ToRoom ''A1B2C3D4E5F6'' (VideoLoaded audio_only_loaded),
        Emit ''host'' (VideoProcessed ''Video loaded successfully'' (Some ''Clip''))] \<and>
   audio_only_loaded ''videoUrl'' = Some (JStr ''https://video.example/watch?v=1'')"
  by (simp add: has_video_def audio_only_def streamUrl_def info_with_def bestFormat_def
      has_video_audio_mp4_def or_str_def truthy_str_def ytdlp_close_ok_def Let_def js_of_str_def
      load0_def audio_only_loaded_def or_default_def)

text \<open>
  C6, amended. For a parsed payload with a formats list, the format selected is the
  first one whose video codec and audio codec are both other than \<open>none\<close> and whose
  container is \<open>mp4\<close>, if there is one, and otherwise the first one whose video codec
  is other than \<open>none\<close>. The stream URL is the selected format's URL when that is
  non-empty; when no format is selected (none carries a video codec) or the selected one
  has no URL, it is the payload's \<open>url\<close> or, failing that, its \<open>webpage_url\<close>. In
  every case the load goes through: the video state is updated with that stream URL
  and \<open>video-loaded\<close> is broadcast to the room.
\<close>

theorem resolver_format_selection:
  assumes "vi_formats vi = Some fs"
  shows "(case bestFormat fs of
            Some f \<Rightarrow>
              (first_matching has_video_audio_mp4 fs f
                 \<or> list_all (\<lambda>g. \<not> has_video_audio_mp4 g) fs \<and> first_matching has_video fs f)
              \<and> streamUrl vi = (if truthy_str (fmt_url f) then fmt_url f
                                 else or_str (vi_url vi) (vi_webpage_url vi))
          | None \<Rightarrow>
              list_all (\<lambda>g. \<not> has_video g) fs
              \<and> streamUrl vi = or_str (vi_url vi) (vi_webpage_url vi))
         \<and> (\<exists>vs. ytdlp_close_ok socket roomId data (Some vi) rm
                    = (updateVideoState (Some vs) rm,
                       [ToRoom roomId (VideoLoaded vs),
                        Emit socket (VideoProcessed ''Video loaded successfully'' (vi_title vi))])
                  \<and> vs ''videoUrl'' = Some (js_of_str (streamUrl vi)))"
proof -
  have sel: "case bestFormat fs of
            Some f \<Rightarrow>
              (first_matching has_video_audio_mp4 fs f
                 \<or> list_all (\<lambda>g. \<not> has_video_audio_mp4 g) fs \<and> first_matching has_video fs f)
              \<and> streamUrl vi = (if truthy_str (fmt_url f) then fmt_url f
                                 else or_str (vi_url vi) (vi_webpage_url vi))
          | None \<Rightarrow>
              list_all (\<lambda>g. \<not> has_video g) fs
              \<and> streamUrl vi = or_str (vi_url vi) (vi_webpage_url vi)"
  proof (cases "find has_video_audio_mp4 fs")
    case None
    note n1 = this
    show ?thesis
    proof (cases "find has_video fs")
      case None
      with n1 assms show ?thesis
        by (simp add: bestFormat_def streamUrl_def find_None_all)
    next
      case (Some f)
      with n1 assms show ?thesis
        by (simp add: bestFormat_def streamUrl_def find_None_all find_first_matching)
    qed
  next
    case (Some f)
    with assms show ?thesis
      by (simp add: bestFormat_def streamUrl_def find_first_matching)
  qed
  have ld: "\<exists>vs. ytdlp_close_ok socket roomId data (Some vi) rm
                    = (updateVideoState (Some vs) rm,
                       [ToRoom roomId (VideoLoaded vs),
                        Emit socket (VideoProcessed ''Video loaded successfully'' (vi_title vi))])
                  \<and> vs ''videoUrl'' = Some (js_of_str (streamUrl vi))"
    by (simp add: ytdlp_close_ok_def Let_def)
  from sel ld show ?thesis by blast
qed

theorem resolver_format_selection_witness:
  "vi_formats (info_with [audio_only, webm_video, mp4_both]) = Some [audio_only, webm_video, mp4_both] \<and>
   bestFormat [audio_only, webm_video, mp4_both] = Some mp4_both \<and>
   streamUrl (info_with [audio_only, webm_video, mp4_both]) = Some ''https://cdn.example/both.mp4'' \<and>
   bestFormat [audio_only, webm_video] = Some webm_video \<and>
   bestFormat [audio_only] = None"
  using resolver_format_selection [of "info_with [audio_only, webm_video, mp4_both]"
      "[audio_only, webm_video, mp4_both]" "''host''" "''A1B2C3D4E5F6''" load0 demo_manager]
  by (simp add: info_with_def bestFormat_def has_video_audio_mp4_def has_video_def audio_only_def
      webm_video_def mp4_both_def streamUrl_def truthy_str_def)

section \<open>Range requests\<close>

lemma digit_char_props:
  assumes "n < 10"
  shows "is_digit (digit_char n)" "digit_val (digit_char n) = n"
    "digit_char n \<noteq> CHR ''-''" "digit_char n \<noteq> CHR ''+''" "\<not> is_space (digit_char n)"
proof -
  have "list_all (\<lambda>k. is_digit (digit_char k) \<and> digit_val (digit_char k) = k
          \<and> digit_char k \<noteq> CHR ''-'' \<and> digit_char k \<noteq> CHR ''+'' \<and> \<not> is_space (digit_char k)) [0..<10]"
    by (simp add: upt_rec digit_char_def is_digit_def digit_val_def is_space_def)
  moreover have "n \<in> set [0..<10]" using assms by simp
  ultimately show "is_digit (digit_char n)" "digit_val (digit_char n) = n"
    "digit_char n \<noteq> CHR ''-''" "digit_char n \<noteq> CHR ''+''" "\<not> is_space (digit_char n)"
    unfolding list_all_iff by blast+
qed

lemma digits_val_snoc: "digits_val (ds @ [c]) = 10 * digits_val ds + digit_val c"
  by (simp add: digits_val_def)

lemma show_nat_digits:
  "show_nat n \<noteq> [] \<and> list_all is_digit (show_nat n) \<and> digits_val (show_nat n) = n
     \<and> is_digit (hd (show_nat n))"
proof (induction n rule: show_nat.induct)
  case (1 n)
  show ?case
  proof (cases "n < 10")
    case True
    then show ?thesis
      by (subst (1 2 3 4) show_nat.simps) (simp add: digit_char_props digits_val_def)
  next
    case False
    have m: "n mod 10 < 10" by simp
    from False "1.IH" show ?thesis
      by (subst (1 2 3 4) show_nat.simps) (simp add: digit_char_props[OF m] digits_val_snoc)
  qed
qed

lemma digit_not_special:
  assumes "is_digit c"
  shows "c \<noteq> CHR ''-''" "c \<noteq> CHR ''+''" "\<not> is_space c"
  using assms by (auto simp: is_digit_def is_space_def)

lemma show_nat_no_dash: "CHR ''-'' \<notin> set (show_nat n)"
  using show_nat_digits[of n] digit_not_special(1) by (auto simp: list_all_iff)

text \<open>Reading back a printed number gives the number.\<close>

lemma parseInt_show_nat: "parseInt (show_nat n) = Some (int n)"
proof -
  obtain c cs where cs: "show_nat n = c # cs" using show_nat_digits[of n] by (cases "show_nat n") auto
  with show_nat_digits[of n] have c: "is_digit c" and all: "list_all is_digit (c # cs)"
    and v: "digits_val (c # cs) = n" by auto
  have tw: "takeWhile is_digit (c # cs) = c # cs"
    using all by (simp add: list_all_iff takeWhile_eq_all_conv[THEN iffD2])
  show ?thesis
    unfolding parseInt_def cs using digit_not_special[OF c] tw v
    by (simp add: Let_def)
qed

lemma remove_first_prefix: "pat \<noteq> [] \<Longrightarrow> remove_first pat (pat @ rest) = rest"
  by (cases pat) simp_all

lemma split_on_no_sep: "d \<notin> set s \<Longrightarrow> split_on d s = [s]"
  by (induction s) auto

lemma split_on_sep:
  "d \<notin> set a \<Longrightarrow> split_on d (a @ d # b) = a # split_on d b"
  by (induction a) auto

lemma range_header_parts:
  "split_on (CHR ''-'') (remove_first ''bytes='' (range_header s eo))
     = [show_nat s, (case eo of None \<Rightarrow> [] | Some e \<Rightarrow> show_nat e)]"
proof -
  have "remove_first ''bytes='' (range_header s eo)
          = show_nat s @ CHR ''-'' # (case eo of None \<Rightarrow> [] | Some e \<Rightarrow> show_nat e)"
    unfolding range_header_def by (subst remove_first_prefix) simp_all
  moreover have "CHR ''-'' \<notin> set (case eo of None \<Rightarrow> [] | Some e \<Rightarrow> show_nat e)"
    by (cases eo) (simp_all add: show_nat_no_dash)
  ultimately show ?thesis
    by (simp add: split_on_sep show_nat_no_dash split_on_no_sep)
qed

lemma show_nat_examples:
  "show_nat 0 = ''0''" "show_nat 99 = ''99''" "show_nat 1000 = ''1000''"
  by (simp_all add: show_nat.simps digit_char_def)

text \<open>
  C4, as the claim states it, fails: for \<open>Range: bytes=0-1999\<close> on the 1000-byte file
  the response announces \<open>Content-Length: 2000\<close> and \<open>Content-Range: bytes 0-1999/1000\<close>,
  and its body is the 1000 bytes of the file.
\<close>

theorem range_beyond_file_counterexample:
  "stream_video disk0 video_manager ''A1B2C3D4E5F6'' (Some ''bytes=0-1999'') =
     Responded
       \<lparr>status = 206,
        headers = [(''Content-Range'', HStr ''bytes 0-1999/1000''),
                   (''Accept-Ranges'', HStr ''bytes''),
                   (''Content-Length'', HNum (Some 2000)),
                   (''Content-Type'', HStr ''video/mp4''),
                   (''Cache-Control'', HStr ''no-cache'')],
        content = Bytes (replicate 1000 0)\<rparr>"
  by (simp add: stream_video_def video_manager_def video_room_def demo_manager_def demo_room_def
      disk0_def truthy_str_def or_default_def Let_def parseInt_def is_space_def is_digit_def
      digits_val_def digit_val_def createReadStream_def show_num_def show_nat.simps digit_char_def)

text \<open>
  C4, amended. For a request to \<open>/stream/{roomId}/video\<close> of the live room, whose
  video state names an existing local file of size \<open>fileSize\<close>, with the header
  \<open>Range: bytes=start-end\<close> (\<open>end\<close> being \<open>fileSize - 1\<close> when omitted) and
  \<open>start \<le> end < fileSize\<close>: the status is 206, \<open>Content-Range\<close> is
  \<open>bytes start-end/fileSize\<close>, \<open>Content-Length\<close> is \<open>end - start + 1\<close>, and the body
  is the \<open>end - start + 1\<close> bytes of the file from position \<open>start\<close>.
\<close>

theorem range_request_in_bounds:
  assumes "room rm = Some r" and "room_id r = roomId"
    and "videoState r ''localPath'' = Some (JStr videoPath)" and "videoPath \<noteq> []"
    and "fs videoPath = Some file"
    and "s \<le> range_end (length file) eo" and "range_end (length file) eo < length file"
  shows "stream_video fs rm roomId (Some (range_header s eo)) =
           Responded
             \<lparr>status = 206,
              headers =
                [(''Content-Range'', HStr (''bytes '' @ show_nat s @ ''-''
                    @ show_nat (range_end (length file) eo) @ ''/'' @ show_nat (length file))),
                 (''Accept-Ranges'', HStr ''bytes''),
                 (''Content-Length'', HNum (Some (int (range_end (length file) eo - s + 1)))),
                 (''Content-Type'', HStr ''video/mp4''),
                 (''Cache-Control'', HStr ''no-cache'')],
              content = Bytes (take (range_end (length file) eo - s + 1) (drop s file))\<rparr>
         \<and> length (take (range_end (length file) eo - s + 1) (drop s file))
             = range_end (length file) eo - s + 1"
proof -
  let ?e = "range_end (length file) eo"
  have hdr: "truthy_str (Some (range_header s eo))" "or_default (Some (range_header s eo)) [] = range_header s eo"
    by (simp_all add: truthy_str_def or_default_def range_header_def)
  have endv: "(case eo of None \<Rightarrow> Some (int (length file) - 1)
               | Some e \<Rightarrow> if show_nat e \<noteq> [] then parseInt (show_nat e) else Some (int (length file) - 1))
             = Some (int ?e)"
    using assms(7) by (cases eo) (auto simp: range_end_def parseInt_show_nat show_nat_digits)
  have endv': "(if (case eo of None \<Rightarrow> [] | Some e \<Rightarrow> show_nat e) \<noteq> []
                then parseInt (case eo of None \<Rightarrow> [] | Some e \<Rightarrow> show_nat e)
                else Some (int (length file) - 1)) = Some (int ?e)"
    using endv by (cases eo) (simp_all add: show_nat_digits)
  have rd: "createReadStream file (Some (int s)) (Some (int ?e))
              = Some (take (?e - s + 1) (drop s file))"
    using assms(6) by (simp add: createReadStream_def nat_diff_distrib' nat_add_distrib flip: of_nat_diff)
  have sn: "show_num (Some (int n)) = show_nat n" for n
    by (simp add: show_num_def)
  have cl: "int ?e - int s + 1 = int (?e - s + 1)" using assms(6) by simp
  have len: "length (take (?e - s + 1) (drop s file)) = ?e - s + 1"
    using assms(6,7) by simp
  have "stream_video fs rm roomId (Some (range_header s eo)) =
           Responded
             \<lparr>status = 206,
              headers =
                [(''Content-Range'', HStr (''bytes '' @ show_nat s @ ''-''
                    @ show_nat ?e @ ''/'' @ show_nat (length file))),
                 (''Accept-Ranges'', HStr ''bytes''),
                 (''Content-Length'', HNum (Some (int (?e - s + 1)))),
                 (''Content-Type'', HStr ''video/mp4''),
                 (''Cache-Control'', HStr ''no-cache'')],
              content = Bytes (take (?e - s + 1) (drop s file))\<rparr>"
    unfolding stream_video_def
    using assms(1-5)
    by (simp add: hdr range_header_parts Let_def parseInt_show_nat endv' rd sn cl)
  with len show ?thesis by simp
qed

text \<open>The example of the specification: \<open>bytes=0-99\<close> on a file of 1000 bytes.\<close>

theorem range_request_in_bounds_witness:
  "room video_manager = Some video_room \<and> disk0 ''/home/ann/movie.mp4'' = Some (replicate 1000 0) \<and>
   (0::nat) \<le> 99 \<and> (99::nat) < length (replicate 1000 (0::8 word)) \<and>
   stream_video disk0 video_manager ''A1B2C3D4E5F6'' (Some ''bytes=0-99'') =
     Responded
       \<lparr>status = 206,
        headers = [(''Content-Range'', HStr ''bytes 0-99/1000''),
                   (''Accept-Ranges'', HStr ''bytes''),
                   (''Content-Length'', HNum (Some 100)),
                   (''Content-Type'', HStr ''video/mp4''),
                   (''Cache-Control'', HStr ''no-cache'')],
        content = Bytes (replicate 100 0)\<rparr> \<and>
   length (replicate 100 (0::8 word)) = 100"
  using range_request_in_bounds [of video_manager video_room
      "''A1B2C3D4E5F6''" "''/home/ann/movie.mp4''" disk0 "replicate 1000 0" 0 "Some 99"]
  by (simp add: video_manager_def video_room_def demo_manager_def demo_room_def disk0_def
      range_header_def range_end_def show_nat_examples)

end
